theory Spec2Isabelle
  imports Complex_Main
begin

section \<open>Number model\<close>

text \<open>
  The calculators of \<^verbatim>\<open>infil.py\<close> and \<^verbatim>\<open>watershaperversiontest21.11.2024.py\<close>
  work on Python floats. They are embedded as real numbers: rounding, overflow and
  the special values inf and nan are outside the model, and every statement below is
  one about exact arithmetic. What Python raises is kept: a float division by zero
  raises ZeroDivisionError, \<^verbatim>\<open>math.sqrt\<close> of a negative number raises ValueError, and
  a negative base under a non-integral exponent leaves the real numbers.
\<close>

datatype error = ZeroDivisionError | ValueError | NonRealPower

definition truediv :: "real \<Rightarrow> real \<Rightarrow> error + real" where
  \<comment> \<open>Python's \<^verbatim>\<open>x / y\<close> on floats.\<close>
  "truediv x y = (if y = 0 then Inl ZeroDivisionError else Inr (x / y))"

definition math_sqrt :: "real \<Rightarrow> error + real" where
  \<comment> \<open>\<^verbatim>\<open>math.sqrt(x)\<close>.\<close>
  "math_sqrt x = (if x < 0 then Inl ValueError else Inr (sqrt x))"

definition float_pow :: "real \<Rightarrow> real \<Rightarrow> error + real" where
  \<comment> \<open>Python's \<^verbatim>\<open>x ** y\<close> with a float exponent. For a negative base and a
      non-integral exponent Python's float power yields a complex number and numpy's
      float64 power yields nan; the embedding stops there with \<open>NonRealPower\<close>.\<close>
  "float_pow x y =
     (if 0 < x then Inr (x powr y)
      else if x = 0 then
        (if 0 < y then Inr 0 else if y = 0 then Inr 1 else Inl ZeroDivisionError)
      else if y = of_int \<lfloor>y\<rfloor> then
        Inr ((if even \<lfloor>y\<rfloor> then 1 else - 1) * (\<bar>x\<bar> powr y))
      else Inl NonRealPower)"

section \<open>Half-ellipsoid geometry\<close>

text \<open>
  Both files define \<^verbatim>\<open>ellipsoid_surface_area_one_side\<close> and \<^verbatim>\<open>ellipsoid_volume\<close>;
  each definition is embedded on its own, under the name of its file.
\<close>

definition infil_ellipsoid_surface_area_one_side :: "real \<Rightarrow> real \<Rightarrow> real \<Rightarrow> error + real" where
  \<comment> \<open>\<^verbatim>\<open>infil.py\<close>, lines 5-9.\<close>
  "infil_ellipsoid_surface_area_one_side a b c =
     (let p = 1.6075 in
      case float_pow (a * b) p of
        Inl e \<Rightarrow> Inl e
      | Inr ab \<Rightarrow>
          (case float_pow (a * c) p of
             Inl e \<Rightarrow> Inl e
           | Inr ac \<Rightarrow>
               (case float_pow (b * c) p of
                  Inl e \<Rightarrow> Inl e
                | Inr bc \<Rightarrow>
                    (case float_pow ((ab + ac + bc) / 3) (1 / p) of
                       Inl e \<Rightarrow> Inl e
                     | Inr r \<Rightarrow> Inr (2 * pi * r)))))"

definition infil_ellipsoid_volume :: "real \<Rightarrow> real \<Rightarrow> real \<Rightarrow> real" where
  \<comment> \<open>\<^verbatim>\<open>infil.py\<close>, lines 11-13.\<close>
  "infil_ellipsoid_volume a b c = (2 / 3) * pi * a * b * c"

definition watershaper_ellipsoid_surface_area_one_side ::
  "real \<Rightarrow> real \<Rightarrow> real \<Rightarrow> error + real" where
  \<comment> \<open>\<^verbatim>\<open>watershaperversiontest21.11.2024.py\<close>, lines 6-10.\<close>
  "watershaper_ellipsoid_surface_area_one_side a b c =
     (let p = 1.6075 in
      case float_pow (a * b) p of
        Inl e \<Rightarrow> Inl e
      | Inr ab \<Rightarrow>
          (case float_pow (a * c) p of
             Inl e \<Rightarrow> Inl e
           | Inr ac \<Rightarrow>
               (case float_pow (b * c) p of
                  Inl e \<Rightarrow> Inl e
                | Inr bc \<Rightarrow>
                    (case float_pow ((ab + ac + bc) / 3) (1 / p) of
                       Inl e \<Rightarrow> Inl e
                     | Inr r \<Rightarrow> Inr (2 * pi * r)))))"

definition watershaper_ellipsoid_volume :: "real \<Rightarrow> real \<Rightarrow> real \<Rightarrow> real" where
  \<comment> \<open>\<^verbatim>\<open>watershaperversiontest21.11.2024.py\<close>, lines 12-14.\<close>
  "watershaper_ellipsoid_volume a b c = (2 / 3) * pi * a * b * c"

section \<open>The objective of the penalised solver\<close>

definition infil_objective :: "real \<times> real \<Rightarrow> real \<Rightarrow> real \<Rightarrow> real \<Rightarrow> error + real" where
  \<comment> \<open>\<^verbatim>\<open>objective\<close> of \<^verbatim>\<open>infil.py\<close>, lines 15-29; the variable \<^verbatim>\<open>penalty\<close> is
      updated in place by the two \<^verbatim>\<open>if\<close> statements.\<close>
  "infil_objective params min_surface_area min_volume c =
     (case params of (a, b) \<Rightarrow>
        (case infil_ellipsoid_surface_area_one_side a b c of
           Inl e \<Rightarrow> Inl e
         | Inr surface_area \<Rightarrow>
             (let volume = infil_ellipsoid_volume a b c;
                  penalty = 0;
                  penalty = (if surface_area < min_surface_area
                             then penalty + (min_surface_area - surface_area)\<^sup>2 else penalty);
                  penalty = (if volume < min_volume
                             then penalty + (min_volume - volume)\<^sup>2 else penalty)
              in Inr (penalty + a + b))))"

text \<open>
  The penalty as the specification words it, to compare the objective with: a squared
  shortfall counts only when the computed quantity is below its minimum.
\<close>

definition spec_squared_shortfall :: "real \<Rightarrow> real \<Rightarrow> real" where
  "spec_squared_shortfall minimum computed =
     (if computed < minimum then (minimum - computed)\<^sup>2 else 0)"

definition spec_penalty :: "real \<Rightarrow> real \<Rightarrow> real \<Rightarrow> real \<Rightarrow> real" where
  "spec_penalty min_surface_area min_volume computed_surface_area computed_volume =
     spec_squared_shortfall min_surface_area computed_surface_area +
     spec_squared_shortfall min_volume computed_volume"

section \<open>The infiltration ditch\<close>

definition calculate_surface_area :: "real \<Rightarrow> real \<Rightarrow> real \<Rightarrow> real \<Rightarrow> real" where
  \<comment> \<open>The local function of \<^verbatim>\<open>calculate_infiltration_ditch\<close>; the variables it
      captures (\<^verbatim>\<open>base_width\<close>, \<^verbatim>\<open>width\<close>, \<^verbatim>\<open>slant_height\<close>) are its first arguments.\<close>
  "calculate_surface_area base_width width slant_height len =
     (let base_area = base_width * len;
          top_area = width * len;
          slanted_wall_area = slant_height * len
      in 2 * slanted_wall_area)"

definition initial_length :: "real \<Rightarrow> real \<Rightarrow> real \<Rightarrow> error + real" where
  \<comment> \<open>Line 63: \<^verbatim>\<open>length = min_volume / ((width * 0.5 + width) / 2 * depth)\<close>.\<close>
  "initial_length width depth min_volume =
     truediv min_volume ((width * 0.5 + width) / 2 * depth)"

definition slant_height_of :: "real \<Rightarrow> real \<Rightarrow> error + real" where
  \<comment> \<open>Lines 66-67: \<^verbatim>\<open>base_width = width * 0.5\<close> and
      \<^verbatim>\<open>slant_height = math.sqrt((width - base_width)**2 / 4 + depth**2)\<close>.\<close>
  "slant_height_of width depth =
     (let base_width = width * 0.5
      in math_sqrt ((width - base_width)\<^sup>2 / 4 + depth\<^sup>2))"

definition current_surface_area :: "real \<Rightarrow> real \<Rightarrow> real \<Rightarrow> error + real" where
  \<comment> \<open>Line 77: the surface area realised at the initial length.\<close>
  "current_surface_area width depth min_volume =
     (case initial_length width depth min_volume of
        Inl e \<Rightarrow> Inl e
      | Inr len \<Rightarrow>
          (case slant_height_of width depth of
             Inl e \<Rightarrow> Inl e
           | Inr slant_height \<Rightarrow>
               Inr (calculate_surface_area (width * 0.5) width slant_height len)))"

definition calculate_infiltration_ditch ::
  "real \<Rightarrow> real \<Rightarrow> real \<Rightarrow> real \<Rightarrow> real \<Rightarrow> error + real \<times> real \<times> real" where
  \<comment> \<open>Lines 57-90. Returns \<open>Inr (volume, surface_area, length)\<close>, or the exception raised.\<close>
  "calculate_infiltration_ditch width depth min_volume min_surface_area roof_area =
     (case initial_length width depth min_volume of
        Inl e \<Rightarrow> Inl e
      | Inr len \<Rightarrow>
          (let base_width = width * 0.5 in
           case slant_height_of width depth of
             Inl e \<Rightarrow> Inl e
           | Inr slant_height \<Rightarrow>
               (let current = calculate_surface_area base_width width slant_height len in
                case (if current < min_surface_area
                      then (case truediv min_surface_area current of
                              Inl e \<Rightarrow> Inl e
                            | Inr scale_factor \<Rightarrow> Inr (len * scale_factor))
                      else Inr len) of
                  Inl e \<Rightarrow> Inl e
                | Inr len' \<Rightarrow>
                    (let volume = ((base_width + width) / 2) * depth * len';
                         surface_area = calculate_surface_area base_width width slant_height len'
                     in Inr (volume, surface_area, len')))))"

section \<open>Requirements derived from the roof area\<close>

text \<open>
  The top level of \<^verbatim>\<open>watershaperversiontest21.11.2024.py\<close>, lines 125-151, as a function
  of the two sidebar inputs. The record holds the values of the script's variables after
  line 151; the rain well size is the number of litres the page displays.
\<close>

record page =
  page_min_volume :: real
  page_min_surface_area :: real
  page_roof_square_meters :: real
  page_rainwell_size :: real

definition rainwell_dimension :: "real \<Rightarrow> real" where
  \<comment> \<open>Lines 143-151, the tiers of the rain well.\<close>
  "rainwell_dimension roof_square_meters =
     (if roof_square_meters < 80 then 5000
      else if 80 \<le> roof_square_meters \<and> roof_square_meters < 120 then 7500
      else if 120 \<le> roof_square_meters \<and> roof_square_meters < 200 then 10000
      else roof_square_meters * 100)"

definition derive_requirements :: "real \<Rightarrow> bool \<Rightarrow> page" where
  \<comment> \<open>Lines 130-135 in their order: the two minima first, the adjustment after them.\<close>
  "derive_requirements roof_square_meters has_rainwell =
     (let min_volume = (roof_square_meters * 33) / 1000;
          min_surface_area = roof_square_meters * 0.08;
          roof_square_meters = (if has_rainwell then roof_square_meters - 30
                                else roof_square_meters)
      in \<lparr>page_min_volume = min_volume,
          page_min_surface_area = min_surface_area,
          page_roof_square_meters = roof_square_meters,
          page_rainwell_size = rainwell_dimension roof_square_meters\<rparr>)"

section \<open>Properties of the geometry\<close>

lemma float_pow_nonneg:
  assumes "0 \<le> x" and "0 < y"
  shows "float_pow x y = Inr (x powr y)"
  using assms by (auto simp: float_pow_def)

lemma infil_surface_area_value:
  assumes "0 \<le> a" and "0 \<le> b" and "0 \<le> c"
  shows "infil_ellipsoid_surface_area_one_side a b c =
           Inr (2 * pi * (((a * b) powr 1.6075 + (a * c) powr 1.6075 + (b * c) powr 1.6075) / 3)
                  powr (1 / 1.6075))"
proof -
  have "0 \<le> ((a * b) powr 1.6075 + (a * c) powr 1.6075 + (b * c) powr 1.6075) / 3"
    by simp
  then show ?thesis
    using assms
    by (simp add: infil_ellipsoid_surface_area_one_side_def Let_def float_pow_nonneg)
qed








text \<open>
  C10. The geometry functions of the two files are extensionally equal: for all
  \<open>a\<close>, \<open>b\<close>, \<open>c\<close> the one-side surface area of \<^verbatim>\<open>infil.py\<close> is that of the
  watershaper file (the same number, or the same failure), and so is the volume.
\<close>

theorem geometry_variants_agree:
  "infil_ellipsoid_surface_area_one_side a b c =
     watershaper_ellipsoid_surface_area_one_side a b c \<and>
   infil_ellipsoid_volume a b c = watershaper_ellipsoid_volume a b c"
  by (simp add: infil_ellipsoid_surface_area_one_side_def
      watershaper_ellipsoid_surface_area_one_side_def infil_ellipsoid_volume_def
      watershaper_ellipsoid_volume_def)

section \<open>Properties of the penalised objective\<close>

text \<open>
  C5. Wherever the computed surface area is a real number, the objective of
  \<^verbatim>\<open>infil.py\<close> is the penalty plus \<open>a + b\<close>, the penalty being the sum of the squared
  shortfalls of surface area and volume; a computed quantity that meets or exceeds its
  minimum contributes nothing.
\<close>

theorem objective_is_penalty_plus_footprint:
  assumes "infil_ellipsoid_surface_area_one_side a b c = Inr surface_area"
  shows "infil_objective (a, b) min_surface_area min_volume c =
           Inr (spec_penalty min_surface_area min_volume surface_area
                  (infil_ellipsoid_volume a b c) + a + b) \<and>
         (min_surface_area \<le> surface_area \<longrightarrow>
            spec_squared_shortfall min_surface_area surface_area = 0) \<and>
         (min_volume \<le> infil_ellipsoid_volume a b c \<longrightarrow>
            spec_squared_shortfall min_volume (infil_ellipsoid_volume a b c) = 0)"
  using assms
  by (simp add: infil_objective_def spec_penalty_def spec_squared_shortfall_def Let_def)

theorem objective_is_penalty_plus_footprint_witness:
  "infil_ellipsoid_surface_area_one_side 1 1 1 = Inr (2 * pi) \<and>
   infil_objective (1, 1) (2 * pi + 1) 0 1 = Inr 3"
proof -
  have s: "infil_ellipsoid_surface_area_one_side 1 1 1 = Inr (2 * pi)"
    by (simp add: infil_surface_area_value)
  have v: "\<not> infil_ellipsoid_volume 1 1 1 < 0"
    by (simp add: infil_ellipsoid_volume_def)
  show ?thesis
    using s v objective_is_penalty_plus_footprint [OF s, of "2 * pi + 1" 0]
    by (simp add: spec_penalty_def spec_squared_shortfall_def)
qed

section \<open>Properties of the infiltration ditch\<close>

lemma slant_height_positive:
  assumes "depth \<noteq> 0"
  shows "\<exists>s. slant_height_of width depth = Inr s \<and> 0 < s"
proof -
  have "0 < (width - width * 0.5)\<^sup>2 / 4 + depth\<^sup>2"
    using assms by (simp add: add_nonneg_pos)
  then show ?thesis
    by (simp add: slant_height_of_def math_sqrt_def not_less [symmetric] order_less_imp_le)
qed

lemma initial_length_positive:
  assumes "0 < width" and "0 < depth" and "0 < min_volume"
  shows "\<exists>l. initial_length width depth min_volume = Inr l \<and> 0 < l"
  using assms by (simp add: initial_length_def truediv_def)

text \<open>
  C9. The result of \<^verbatim>\<open>calculate_infiltration_ditch\<close> does not depend on its
  \<^verbatim>\<open>roof_area\<close> argument: two calls that agree on width, depth, minimum volume and
  minimum surface area return the same outcome, whatever the two roof areas are.
\<close>

theorem ditch_ignores_roof_area:
  "calculate_infiltration_ditch width depth min_volume min_surface_area roof_area =
   calculate_infiltration_ditch width depth min_volume min_surface_area roof_area'"
  by (simp add: calculate_infiltration_ditch_def)

text \<open>
  C2. For positive width, depth, minimum volume and minimum surface area the ditch
  solver returns a result, and its length is the initial length, corrected at most once:
  multiplied by \<open>min_surface_area / area0\<close> when the area \<open>area0\<close> realised at the
  initial length is below the minimum, and left alone otherwise. The returned surface
  area is the one realised at that length and is at least the minimum, and the returned
  volume is \<open>((base_width + width) / 2) * depth * length\<close> at that length.
\<close>

theorem ditch_single_correction:
  assumes "0 < width" and "0 < depth" and "0 < min_volume" and "0 < min_surface_area"
  shows "\<exists>len0 slant area0 volume surface_area len.
           initial_length width depth min_volume = Inr len0 \<and>
           slant_height_of width depth = Inr slant \<and>
           current_surface_area width depth min_volume = Inr area0 \<and>
           calculate_infiltration_ditch width depth min_volume min_surface_area roof_area =
             Inr (volume, surface_area, len) \<and>
           len = (if area0 < min_surface_area then len0 * (min_surface_area / area0) else len0) \<and>
           surface_area = calculate_surface_area (width * 0.5) width slant len \<and>
           min_surface_area \<le> surface_area \<and>
           volume = ((width * 0.5 + width) / 2) * depth * len"
proof -
  obtain len0 where l: "initial_length width depth min_volume = Inr len0" and lpos: "0 < len0"
    using initial_length_positive [OF assms(1-3)] by blast
  obtain slant where s: "slant_height_of width depth = Inr slant" and spos: "0 < slant"
    using slant_height_positive [of depth width] assms(2) by auto
  define area0 where "area0 = calculate_surface_area (width * 0.5) width slant len0"
  have a0: "area0 = 2 * (slant * len0)"
    by (simp add: area0_def calculate_surface_area_def)
  have apos: "0 < area0"
    using lpos spos by (simp add: a0)
  have cur: "current_surface_area width depth min_volume = Inr area0"
    by (simp add: current_surface_area_def l s area0_def)
  define len where
    "len = (if area0 < min_surface_area then len0 * (min_surface_area / area0) else len0)"
  have res: "calculate_infiltration_ditch width depth min_volume min_surface_area roof_area =
      Inr (((width * 0.5 + width) / 2) * depth * len,
           calculate_surface_area (width * 0.5) width slant len, len)"
  proof -
    have cs: "calculate_surface_area (width / 2) width slant len0 = area0"
      by (simp add: area0_def)
    show ?thesis
      using apos
      by (simp add: calculate_infiltration_ditch_def l s Let_def cs truediv_def len_def)
  qed
  have "min_surface_area \<le> calculate_surface_area (width * 0.5) width slant len"
  proof (cases "area0 < min_surface_area")
    case True
    then have "calculate_surface_area (width * 0.5) width slant len = min_surface_area"
      using apos lpos spos by (simp add: len_def calculate_surface_area_def a0)
    then show ?thesis by simp
  next
    case False
    then show ?thesis by (simp add: len_def area0_def)
  qed
  with l s cur res show ?thesis
    unfolding len_def by blast
qed

theorem ditch_single_correction_witness:
  "(0::real) < 3/2 \<and> (0::real) < 1/2 \<and> (0::real) < 33/20 \<and> (0::real) < 4 \<and>
   calculate_infiltration_ditch (3/2) (1/2) (33/20) 4 50 = Inr (9/5, 4, 16/5)"
  using ditch_single_correction [of "3/2" "1/2" "33/20" 4 50]
  by (simp add: calculate_infiltration_ditch_def initial_length_def slant_height_of_def
      truediv_def math_sqrt_def calculate_surface_area_def Let_def power2_eq_square
      real_sqrt_divide)

text \<open>
  C3. The claim is that a surface area of zero (or below) at the initial length makes
  the ditch solver return a failure instead of dividing by it. The solver has no such
  outcome. At width 1.5, depth 0.5, minimum volume 0 and minimum surface area 4 the
  area at the initial length is 0 and the division by it raises ZeroDivisionError.
\<close>

theorem zero_area_division_raises:
  "current_surface_area (3/2) (1/2) 0 = Inr 0 \<and>
   calculate_infiltration_ditch (3/2) (1/2) 0 4 50 = Inl ZeroDivisionError"
  by (simp add: calculate_infiltration_ditch_def current_surface_area_def initial_length_def
      slant_height_of_def truediv_def math_sqrt_def calculate_surface_area_def Let_def
      power2_eq_square)

text \<open>
  C3, as amended. When the area \<open>area0\<close> realised at the initial length is zero or
  negative, and it is not zero with a positive minimum surface area, the solver returns
  an ordinary result: the length stays at the initial length when \<open>area0\<close> is not below
  the minimum and is multiplied by \<open>min_surface_area / area0\<close> otherwise, and volume and
  surface area are those of that length.
\<close>

theorem ditch_nonpositive_area_returns:
  assumes "current_surface_area width depth min_volume = Inr area0"
    and "area0 \<le> 0"
    and "area0 < 0 \<or> min_surface_area \<le> 0"
  shows "\<exists>len0 slant len.
           initial_length width depth min_volume = Inr len0 \<and>
           slant_height_of width depth = Inr slant \<and>
           len = (if area0 < min_surface_area then len0 * (min_surface_area / area0) else len0) \<and>
           calculate_infiltration_ditch width depth min_volume min_surface_area roof_area =
             Inr (((width * 0.5 + width) / 2) * depth * len,
                  calculate_surface_area (width * 0.5) width slant len, len)"
proof -
  obtain len0 where l: "initial_length width depth min_volume = Inr len0"
    using assms(1) by (auto simp: current_surface_area_def split: sum.splits)
  obtain slant where s: "slant_height_of width depth = Inr slant"
    using assms(1) by (auto simp: current_surface_area_def split: sum.splits)
  have cs: "calculate_surface_area (width / 2) width slant len0 = area0"
    using assms(1) by (simp add: current_surface_area_def l s)
  have nz: "area0 < min_surface_area \<Longrightarrow> area0 \<noteq> 0"
    using assms(3) by auto
  have "calculate_infiltration_ditch width depth min_volume min_surface_area roof_area =
      Inr (((width * 0.5 + width) / 2) * depth *
             (if area0 < min_surface_area then len0 * (min_surface_area / area0) else len0),
           calculate_surface_area (width * 0.5) width slant
             (if area0 < min_surface_area then len0 * (min_surface_area / area0) else len0),
           (if area0 < min_surface_area then len0 * (min_surface_area / area0) else len0))"
    using nz by (simp add: calculate_infiltration_ditch_def l s Let_def cs truediv_def)
  with l s show ?thesis by blast
qed

theorem ditch_nonpositive_area_returns_witness:
  "current_surface_area (3/2) (1/2) (- (33/20)) = Inr (- (11/3)) \<and>
   (- (11/3) :: real) \<le> 0 \<and>
   (- (11/3) :: real) < 0 \<and>
   calculate_infiltration_ditch (3/2) (1/2) (- (33/20)) 4 50 = Inr (9/5, 4, 16/5)"
proof -
  have c: "current_surface_area (3/2) (1/2) (- (33/20)) = Inr (- (11/3))"
    by (simp add: current_surface_area_def initial_length_def slant_height_of_def
        truediv_def math_sqrt_def calculate_surface_area_def Let_def power2_eq_square
        real_sqrt_divide)
  have "slant_height_of (3/2) (1/2) = Inr (5/8)"
    by (simp add: slant_height_of_def math_sqrt_def Let_def power2_eq_square real_sqrt_divide)
  moreover have "initial_length (3/2) (1/2) (- (33/20)) = Inr (- (44/15))"
    by (simp add: initial_length_def truediv_def)
  ultimately show ?thesis
    using c ditch_nonpositive_area_returns [OF c, of 4 50]
    by (auto simp add: calculate_surface_area_def)
qed

text \<open>
  C4. The claim is that with both minima zero the ditch solver returns a strictly
  positive length. At width 1.5 and depth 0.5 it returns the length 0, with volume 0
  and surface area 0.
\<close>

theorem zero_minima_give_zero_length:
  "calculate_infiltration_ditch (3/2) (1/2) 0 0 50 = Inr (0, 0, 0)"
  by (simp add: calculate_infiltration_ditch_def initial_length_def slant_height_of_def
      truediv_def math_sqrt_def calculate_surface_area_def Let_def power2_eq_square)

text \<open>
  C4, as amended. For every positive width and depth, the ditch solver called with
  minimum volume 0 and minimum surface area 0 raises nothing and returns volume 0,
  surface area 0 and length 0.
\<close>

theorem ditch_zero_requirements:
  assumes "0 < width" and "0 < depth"
  shows "calculate_infiltration_ditch width depth 0 0 roof_area = Inr (0, 0, 0)"
proof -
  have l: "initial_length width depth 0 = Inr 0"
    using assms by (simp add: initial_length_def truediv_def)
  obtain slant where s: "slant_height_of width depth = Inr slant"
    using slant_height_positive [of depth width] assms(2) by auto
  show ?thesis
    by (simp add: calculate_infiltration_ditch_def l s calculate_surface_area_def)
qed

theorem ditch_zero_requirements_witness:
  "(0::real) < 2 \<and> (0::real) < 1 \<and> calculate_infiltration_ditch 2 1 0 0 100 = Inr (0, 0, 0)"
  using ditch_zero_requirements [of 2 1 100] by simp

section \<open>Properties of the derived requirements\<close>

text \<open>
  C7. The claim is that with the rain well box ticked the minima are computed from the
  roof area less 30. At a roof area of 50 the page computes the minimum volume 1.65 and
  the minimum surface area 4, not 0.66 and 1.6.
\<close>

theorem rainwell_minima_not_adjusted:
  "page_min_volume (derive_requirements 50 True) \<noteq> (50 - 30) * 33 / 1000 \<and>
   page_min_surface_area (derive_requirements 50 True) \<noteq> (50 - 30) * 0.08"
  by (simp add: derive_requirements_def)

text \<open>
  C7, as amended. For every roof area, with the rain well box ticked the minimum volume
  is \<open>roof_area * 33 / 1000\<close> and the minimum surface area is \<open>roof_area * 0.08\<close>, both
  from the roof area as entered; the 30 is subtracted after them, and the rain well tier
  is looked up at the roof area less 30.
\<close>

theorem rainwell_offset_after_minima:
  "page_min_volume (derive_requirements roof_area True) = roof_area * 33 / 1000 \<and>
   page_min_surface_area (derive_requirements roof_area True) = roof_area * 0.08 \<and>
   page_roof_square_meters (derive_requirements roof_area True) = roof_area - 30 \<and>
   page_rainwell_size (derive_requirements roof_area True) = rainwell_dimension (roof_area - 30)"
  by (simp add: derive_requirements_def Let_def)

end
